theory Spec2Isabelle
  imports Complex_Main "HOL-Library.Sublist"
begin

section \<open>Numbers, failures and the data of earthquakes.js\<close>

text \<open>
  JavaScript numbers are modelled as the reals: every arithmetic operation of the source
  is the exact one. The two things a real cannot be are spelled out as failures:
  reading a property of \<^verbatim>\<open>undefined\<close> throws a TypeError, and a division
  by zero leaves the reals (JavaScript answers Infinity, -Infinity or NaN there).
\<close>

datatype failure = TypeError | NonFinite

definition js_div :: "real \<Rightarrow> real \<Rightarrow> real option" where
  "js_div a b = (if b = 0 then None else Some (a / b))"

text \<open>\<^verbatim>\<open>var playTime = 10000\<close> (line 6).\<close>

definition playTime :: real where
  "playTime = 10000"

text \<open>
  The play state object of lines 8 to 12: \<^verbatim>\<open>{playing, currentTime, totalTime}\<close>.
\<close>

record play_state =
  playing :: bool
  currentTime :: real
  totalTime :: real

definition startState :: play_state where
  "startState = \<lparr>playing = False, currentTime = playTime, totalTime = playTime\<rparr>"

text \<open>
  A feature of the GeoJSON summary feed: \<^verbatim>\<open>properties.time\<close>,
  \<^verbatim>\<open>properties.mag\<close> and \<^verbatim>\<open>geometry.coordinates\<close>.
\<close>

record feature =
  time :: real
  mag :: real
  coordinates :: "real list"

section \<open>Render time (lines 82 to 90)\<close>

text \<open>
  The three locals of the selector: \<^verbatim>\<open>first\<close> is the time of the last
  element of the batch, \<^verbatim>\<open>last\<close> the time of element 0 and
  \<^verbatim>\<open>total\<close> their difference.
\<close>

definition first_time :: "feature list \<Rightarrow> real" where
  "first_time features = time (features ! (length features - 1))"

definition last_time :: "feature list \<Rightarrow> real" where
  "last_time features = time (features ! 0)"

definition total_time :: "feature list \<Rightarrow> real" where
  "total_time features = time (features ! 0) - time (features ! (length features - 1))"

text \<open>
  \<^verbatim>\<open>first + playState.currentTime * total / playTime\<close>. On an empty batch
  \<^verbatim>\<open>features[features.length - 1]\<close> is undefined and the selector throws.
\<close>

definition renderTime :: "feature list \<Rightarrow> play_state \<Rightarrow> failure + real" where
  "renderTime features playState =
     (if features = [] then Inl TypeError
      else (case js_div (currentTime playState * total_time features) playTime of
              None \<Rightarrow> Inl NonFinite
            | Some q \<Rightarrow> Inr (first_time features + q)))"

text \<open>A batch is newest first when its times never increase along the list.\<close>

definition newest_first :: "feature list \<Rightarrow> bool" where
  "newest_first features = sorted (rev (map time features))"

section \<open>Opacity of a feature (lines 234 to 257)\<close>

definition featureOpacity :: "real \<Rightarrow> real \<Rightarrow> real" where
  "featureOpacity renderTime' featureTime =
     (if renderTime' < featureTime then 0
      else max 0.2 (1 - ((renderTime' - featureTime) / (6 * 60 * 60 * 1000))))"

text \<open>
  One step of the scan of \<^verbatim>\<open>featureGroup$\<close>: the opacities written to the
  children of the group, child \<open>i\<close> being the cone of \<^verbatim>\<open>features[i]\<close>.
  \<^verbatim>\<open>lastTime\<close> is read from element 0 when the batch arrives, so an empty
  batch throws.
\<close>

definition featureGroup :: "feature list \<Rightarrow> real \<Rightarrow> failure + real list" where
  "featureGroup features renderTime' =
     (if features = [] then Inl TypeError
      else Inr (map (\<lambda>f. if renderTime' \<ge> last_time features then 1
                          else featureOpacity renderTime' (time f)) features))"

section \<open>The clock (lines 14 to 72, 92 to 113)\<close>

text \<open>
  The state the clock works on: the current value of the subject
  \<^verbatim>\<open>playState$\<close>, the two globals \<^verbatim>\<open>lastFrameTime\<close> and
  \<^verbatim>\<open>requestID\<close> (\<open>None\<close> is \<^verbatim>\<open>null\<close>), and the part of the
  window the code talks to: the handles of the animation frame callbacks that are
  requested and have neither fired nor been cancelled, in the order of the requests, and
  the last handle the window gave out. Every callback the source requests is
  \<^verbatim>\<open>tick\<close>, so a handle is all there is to know of a callback.
\<close>

record clock =
  playState :: play_state
  lastFrameTime :: "real option"
  requestID :: "nat option"
  frameCallbacks :: "nat list"
  frameHandle :: nat

text \<open>
  The window, as the HTML standard has it: a request increments the callback identifier,
  appends the callback under it and returns it (so the first handle is 1); a cancel
  removes the callback of that handle.
\<close>

definition requestAnimationFrame :: "clock \<Rightarrow> nat \<times> clock" where
  "requestAnimationFrame c =
     (let h = frameHandle c + 1
      in (h, c\<lparr>frameHandle := h, frameCallbacks := frameCallbacks c @ [h]\<rparr>))"

definition cancelAnimationFrame :: "nat \<Rightarrow> clock \<Rightarrow> clock" where
  "cancelAnimationFrame h c = c\<lparr>frameCallbacks := removeAll h (frameCallbacks c)\<rparr>"

text \<open>\<^verbatim>\<open>if (requestID)\<close>: null and 0 are falsy.\<close>

definition truthy :: "nat option \<Rightarrow> bool" where
  "truthy r = (case r of None \<Rightarrow> False | Some h \<Rightarrow> h \<noteq> 0)"

text \<open>\<^verbatim>\<open>Date.now() - lastFrameTime\<close>: null counts as 0.\<close>

definition to_number :: "real option \<Rightarrow> real" where
  "to_number r = (case r of None \<Rightarrow> 0 | Some t \<Rightarrow> t)"

text \<open>
  The subscriber of lines 22 to 34, in its two halves. \<open>now\<close> is what
  \<^verbatim>\<open>Date.now()\<close> returns at line 31.
\<close>

definition cancel_previous :: "clock \<Rightarrow> clock" where
  "cancel_previous c =
     (if truthy (requestID c)
      then (cancelAnimationFrame (the (requestID c)) c)\<lparr>requestID := None\<rparr>
      else c)"

definition request_next :: "real \<Rightarrow> clock \<Rightarrow> clock" where
  "request_next now c =
     (if playing (playState c)
      then (case requestAnimationFrame (c\<lparr>lastFrameTime := Some now\<rparr>) of
              (h, c') \<Rightarrow> c'\<lparr>requestID := Some h\<rparr>)
      else c)"

definition subscriber :: "real \<Rightarrow> clock \<Rightarrow> clock" where
  "subscriber now c = request_next now (cancel_previous c)"

text \<open>
  \<^verbatim>\<open>Object.assign(playState$.getValue(), newState)\<close>: the fields that
  \<^verbatim>\<open>newState\<close> has overwrite those of the state; \<^verbatim>\<open>totalTime\<close> is
  never among them.
\<close>

record new_state =
  set_playing :: "bool option"
  set_currentTime :: "real option"

definition assign :: "play_state \<Rightarrow> new_state \<Rightarrow> play_state" where
  "assign state newState =
     state\<lparr>playing := (case set_playing newState of None \<Rightarrow> playing state | Some b \<Rightarrow> b),
            currentTime :=
              (case set_currentTime newState of None \<Rightarrow> currentTime state | Some t \<Rightarrow> t)\<rparr>"

definition updatePlayState :: "new_state \<Rightarrow> real \<Rightarrow> clock \<Rightarrow> clock" where
  "updatePlayState newState now c =
     subscriber now (c\<lparr>playState := assign (playState c) newState\<rparr>)"

text \<open>
  \<^verbatim>\<open>tick\<close> (lines 42 to 59). \<open>now\<close> is the reading of
  \<^verbatim>\<open>Date.now()\<close> at line 50, \<open>now'\<close> the one the subscriber takes when the
  new state is published. The sum and the difference are taken in the order of the
  source, \<open>(currentTime + now) - lastFrameTime\<close>, and are those of the reals; the
  doubles of the source give the same on whole milliseconds and may differ in the last
  place on other numbers.
\<close>

definition tick :: "real \<Rightarrow> real \<Rightarrow> clock \<Rightarrow> clock" where
  "tick now now' c =
     (let c1 = c\<lparr>requestID := None\<rparr>;
          state = playState c1;
          currentTime' = min (currentTime state + now - to_number (lastFrameTime c1))
                             (totalTime state)
      in updatePlayState
           \<lparr>set_playing = Some (if currentTime' \<ge> totalTime state then False else True),
            set_currentTime = Some currentTime'\<rparr> now' c1)"

definition play :: "real \<Rightarrow> clock \<Rightarrow> clock" where
  "play now c =
     (let state = playState c
      in updatePlayState
           \<lparr>set_playing = Some True,
            set_currentTime =
              Some (if currentTime state = totalTime state then 0 else currentTime state)\<rparr>
           now c)"

definition pause :: "real \<Rightarrow> clock \<Rightarrow> clock" where
  "pause now c = updatePlayState \<lparr>set_playing = Some False, set_currentTime = None\<rparr> now c"

text \<open>The click listener of the button (lines 95 to 99).\<close>

definition button_click :: "real \<Rightarrow> clock \<Rightarrow> clock" where
  "button_click now c = (if playing (playState c) then pause now c else play now c)"

text \<open>
  The input listener of the slider (lines 108 to 113); \<open>v\<close> is the number that
  \<^verbatim>\<open>e.target.value\<close> stands for.
\<close>

definition slider_input :: "real \<Rightarrow> real \<Rightarrow> clock \<Rightarrow> clock" where
  "slider_input v now c =
     updatePlayState \<lparr>set_playing = Some False, set_currentTime = Some (v * playTime)\<rparr> now c"

text \<open>
  An animation frame of the window: the handles pending at its start are taken in order;
  each one still pending is removed and its callback, \<^verbatim>\<open>tick\<close>, is run.
  Callbacks requested meanwhile wait for the next frame.
\<close>

definition fire :: "real \<Rightarrow> real \<Rightarrow> nat \<Rightarrow> clock \<Rightarrow> clock" where
  "fire now now' h c =
     (if h \<in> set (frameCallbacks c)
      then tick now now' (c\<lparr>frameCallbacks := removeAll h (frameCallbacks c)\<rparr>)
      else c)"

definition animation_frame :: "real \<Rightarrow> real \<Rightarrow> clock \<Rightarrow> clock" where
  "animation_frame now now' c = fold (fire now now') (frameCallbacks c) c"

text \<open>
  The clock when the script has run: the subject holds a copy of \<open>startState\<close> and
  the subscriber has seen it once.
\<close>

definition initial_clock :: "real \<Rightarrow> clock" where
  "initial_clock now =
     subscriber now
       \<lparr>playState = startState, lastFrameTime = None, requestID = None,
        frameCallbacks = [], frameHandle = 0\<rparr>"

text \<open>What can happen to the clock, each with the readings of \<^verbatim>\<open>Date.now()\<close>.\<close>

datatype event =
    Play real
  | Pause real
  | ButtonClick real
  | SliderMouseDown real
  | SliderInput real real
  | AnimationFrame real real

fun handle :: "event \<Rightarrow> clock \<Rightarrow> clock" where
  "handle (Play now) c = play now c"
| "handle (Pause now) c = pause now c"
| "handle (ButtonClick now) c = button_click now c"
| "handle (SliderMouseDown now) c = pause now c"
| "handle (SliderInput v now) c = slider_input v now c"
| "handle (AnimationFrame now now') c = animation_frame now now' c"

inductive reachable :: "clock \<Rightarrow> bool" where
  start: "reachable (initial_clock now)"
| step: "reachable c \<Longrightarrow> reachable (handle e c)"

text \<open>
  The states a handler passes through, one for each write to the play state, to
  \<^verbatim>\<open>requestID\<close> or to the callbacks of the window, the last one being the
  state the handler ends in.
\<close>

definition subscriber_trace :: "real \<Rightarrow> clock \<Rightarrow> clock list" where
  "subscriber_trace now c = [cancel_previous c, request_next now (cancel_previous c)]"

definition updatePlayState_trace :: "new_state \<Rightarrow> real \<Rightarrow> clock \<Rightarrow> clock list" where
  "updatePlayState_trace newState now c =
     (let c1 = c\<lparr>playState := assign (playState c) newState\<rparr>
      in c1 # subscriber_trace now c1)"

definition tick_trace :: "real \<Rightarrow> real \<Rightarrow> clock \<Rightarrow> clock list" where
  "tick_trace now now' c =
     (let c1 = c\<lparr>requestID := None\<rparr>;
          state = playState c1;
          currentTime' = min (currentTime state + now - to_number (lastFrameTime c1))
                             (totalTime state)
      in c1 # updatePlayState_trace
           \<lparr>set_playing = Some (if currentTime' \<ge> totalTime state then False else True),
            set_currentTime = Some currentTime'\<rparr> now' c1)"

fun frame_trace :: "real \<Rightarrow> real \<Rightarrow> nat list \<Rightarrow> clock \<Rightarrow> clock list" where
  "frame_trace now now' [] c = []"
| "frame_trace now now' (h # hs) c =
     (if h \<in> set (frameCallbacks c)
      then (let c1 = c\<lparr>frameCallbacks := removeAll h (frameCallbacks c)\<rparr>
            in c1 # tick_trace now now' c1 @ frame_trace now now' hs (tick now now' c1))
      else frame_trace now now' hs c)"

definition play_trace :: "real \<Rightarrow> clock \<Rightarrow> clock list" where
  "play_trace now c =
     (let state = playState c
      in updatePlayState_trace
           \<lparr>set_playing = Some True,
            set_currentTime =
              Some (if currentTime state = totalTime state then 0 else currentTime state)\<rparr>
           now c)"

definition pause_trace :: "real \<Rightarrow> clock \<Rightarrow> clock list" where
  "pause_trace now c =
     updatePlayState_trace \<lparr>set_playing = Some False, set_currentTime = None\<rparr> now c"

fun handle_trace :: "event \<Rightarrow> clock \<Rightarrow> clock list" where
  "handle_trace (Play now) c = play_trace now c"
| "handle_trace (Pause now) c = pause_trace now c"
| "handle_trace (ButtonClick now) c =
     (if playing (playState c) then pause_trace now c else play_trace now c)"
| "handle_trace (SliderMouseDown now) c = pause_trace now c"
| "handle_trace (SliderInput v now) c =
     updatePlayState_trace
       \<lparr>set_playing = Some False, set_currentTime = Some (v * playTime)\<rparr> now c"
| "handle_trace (AnimationFrame now now') c = frame_trace now now' (frameCallbacks c) c"



text \<open>
  What holds between two handlers: the window holds exactly the callback whose handle
  \<^verbatim>\<open>requestID\<close> remembers, there is one exactly while playing, the total
  time is \<open>playTime\<close>, and a playing clock is not at the end.
\<close>

definition clock_inv :: "clock \<Rightarrow> bool" where
  "clock_inv c =
     (requestID c \<noteq> Some 0 \<and>
      frameCallbacks c = (case requestID c of None \<Rightarrow> [] | Some h \<Rightarrow> [h]) \<and>
      (playing (playState c) = (requestID c \<noteq> None)) \<and>
      totalTime (playState c) = playTime \<and>
      (playing (playState c) \<longrightarrow> currentTime (playState c) \<noteq> totalTime (playState c) \<and>
         lastFrameTime c \<noteq> None))"

text \<open>
  Between two successive states a callback is new only if none was pending before.
\<close>

definition schedules_on_empty :: "clock \<Rightarrow> clock \<Rightarrow> bool" where
  "schedules_on_empty a b =
     (set (frameCallbacks b) \<subseteq> set (frameCallbacks a) \<or> frameCallbacks a = [])"




text \<open>
  A trace is in order, seen from the state \<open>c\<close> it starts in: no state of it has
  more than one pending callback, and every step of it schedules on empty.
\<close>

definition trace_ok :: "clock \<Rightarrow> clock list \<Rightarrow> bool" where
  "trace_ok c tr = ((\<forall>s\<in>set tr. length (frameCallbacks s) \<le> 1) \<and>
         successively schedules_on_empty (c # tr))"

section \<open>The container and its children (lines 172 to 187)\<close>







text \<open>
  What a source tells its subscriber: a value, that it has completed, or that it has
  failed; each with the index of the source in the list. What the combined stream tells
  its own subscriber is a signal.
\<close>

datatype notification =
    is_Next: Next nat nat
  | is_Completed: Completed nat
  | is_Failed: Failed nat

























section \<open>Theorems\<close>

lemma newest_first_last_time:
  assumes "features \<noteq> []" "newest_first features"
  shows "last_time features = Max (time ` set features)"
proof -
  obtain f fs where fs: "features = f # fs"
    using assms(1) by (cases features) auto
  have "sorted (rev (map time fs) @ [time f])"
    using assms(2) by (simp add: newest_first_def fs)
  then have "\<forall>x\<in>set fs. time x \<le> time f"
    by (auto simp: sorted_append)
  then have "Max (time ` set (f # fs)) = time f"
    by (intro Max_eqI) auto
  then show ?thesis
    by (simp add: fs last_time_def)
qed

lemma newest_first_first_time:
  assumes "features \<noteq> []" "newest_first features"
  shows "first_time features = Min (time ` set features)"
proof -
  have srt: "sorted (rev (map time features))"
    using assms(2) by (simp add: newest_first_def)
  have ne: "rev (map time features) \<noteq> []"
    using assms(1) by simp
  have "first_time features = last (map time features)"
    using assms(1) by (simp add: first_time_def last_conv_nth)
  also have "\<dots> = hd (rev (map time features))"
    using assms(1) by (simp add: hd_rev)
  also have "\<dots> = Min (set (rev (map time features)))"
    using srt ne by (cases "rev (map time features)") (auto intro!: Min_eqI [symmetric])
  finally show ?thesis by simp
qed


text \<open>
  C3. For a non-empty batch, child \<open>i\<close> and render time \<open>t\<close>, with
  \<open>newest\<close> the time of element 0 (the largest time of a newest-first batch): the
  opacity is 1 when \<open>t \<ge> newest\<close>, whatever the time of the event; otherwise it is 0
  when \<open>t\<close> is before the event; otherwise it is
  \<open>max 0.2 (1 - (t - time e) / 21600000)\<close>, the decay window being six hours.
\<close>

theorem featureGroup_opacity:
  assumes "features \<noteq> []" and "i < length features"
  shows "(\<exists>ops. featureGroup features t = Inr ops \<and> length ops = length features \<and>
            ops ! i =
              (if t \<ge> last_time features then 1
               else if t < time (features ! i) then 0
               else max 0.2 (1 - (t - time (features ! i)) / 21600000))) \<and>
         (newest_first features \<longrightarrow> last_time features = Max (time ` set features)) \<and>
         (6 * 60 * 60 * 1000 = (21600000 :: real))"
  using assms newest_first_last_time [of features]
  by (simp add: featureGroup_def featureOpacity_def)

theorem featureGroup_opacity_witness:
  "[\<lparr>time = 1000, mag = 5, coordinates = []\<rparr>, \<lparr>time = 0, mag = 4, coordinates = []\<rparr>] \<noteq> [] \<and>
   (1 :: nat) < length [\<lparr>time = 1000, mag = 5, coordinates = []\<rparr>,
                        \<lparr>time = 0, mag = 4, coordinates = []\<rparr>] \<and>
   featureGroup [\<lparr>time = 1000, mag = 5, coordinates = []\<rparr>,
                 \<lparr>time = 0, mag = 4, coordinates = []\<rparr>] 500 = Inr [0, 1 - 500 / 21600000] \<and>
   newest_first [\<lparr>time = 1000, mag = 5, coordinates = []\<rparr>,
                 \<lparr>time = 0, mag = 4, coordinates = []\<rparr>] \<and>
   last_time [\<lparr>time = 1000, mag = 5, coordinates = []\<rparr>,
              \<lparr>time = 0, mag = 4, coordinates = []\<rparr>] = 1000"
  using featureGroup_opacity [of "[\<lparr>time = 1000, mag = 5, coordinates = []\<rparr>,
                                     \<lparr>time = 0, mag = 4, coordinates = []\<rparr>]" 1 500]
  by (simp add: newest_first_def last_time_def featureGroup_def featureOpacity_def)

text \<open>
  C8. An event that has occurred (its time is at most the render time), while the render
  time is still before the newest time of the batch, has opacity at least 0.2.
\<close>

theorem occurred_opacity_floor:
  assumes "features \<noteq> []" and "i < length features"
    and "time (features ! i) \<le> t" and "t < last_time features"
  shows "(\<exists>ops. featureGroup features t = Inr ops \<and> 0.2 \<le> ops ! i) \<and>
         0.2 \<le> featureOpacity t (time (features ! i))"
  using assms by (simp add: featureGroup_def featureOpacity_def max_def)

theorem occurred_opacity_floor_witness:
  "[\<lparr>time = 90000000, mag = 5, coordinates = []\<rparr>, \<lparr>time = 0, mag = 4, coordinates = []\<rparr>] \<noteq> [] \<and>
   (1 :: nat) < length [\<lparr>time = 90000000, mag = 5, coordinates = []\<rparr>,
                        \<lparr>time = 0, mag = 4, coordinates = []\<rparr>] \<and>
   time ([\<lparr>time = 90000000, mag = 5, coordinates = []\<rparr>,
          \<lparr>time = 0, mag = 4, coordinates = []\<rparr>] ! 1) \<le> 80000000 \<and>
   80000000 < last_time [\<lparr>time = 90000000, mag = 5, coordinates = []\<rparr>,
                          \<lparr>time = 0, mag = 4, coordinates = []\<rparr>] \<and>
   featureGroup [\<lparr>time = 90000000, mag = 5, coordinates = []\<rparr>,
                 \<lparr>time = 0, mag = 4, coordinates = []\<rparr>] 80000000 = Inr [0, 0.2] \<and>
   0.2 \<le> featureOpacity 80000000 0"
  using occurred_opacity_floor [of "[\<lparr>time = 90000000, mag = 5, coordinates = []\<rparr>,
                                      \<lparr>time = 0, mag = 4, coordinates = []\<rparr>]" 1 80000000]
  by (simp add: featureGroup_def featureOpacity_def last_time_def)

text \<open>
  C10. For all real render and feature times, \<open>featureOpacity\<close> is 0 or lies between
  0.2 and 1; so it is never negative and never above 1. It is exactly 1 when the two
  times are equal.
\<close>

theorem featureOpacity_range:
  "(featureOpacity r f = 0 \<or> (0.2 \<le> featureOpacity r f \<and> featureOpacity r f \<le> 1)) \<and>
   0 \<le> featureOpacity r f \<and> featureOpacity r f \<le> 1 \<and> featureOpacity r r = 1"
  by (simp add: featureOpacity_def max_def)

theorem featureOpacity_range_witness:
  "featureOpacity 500 1000 = 0 \<and> featureOpacity 10800000 0 = 0.5 \<and>
   featureOpacity 80000000 0 = 0.2 \<and> featureOpacity 7 7 = 1 \<and>
   0 \<le> featureOpacity 10800000 0 \<and> featureOpacity 10800000 0 \<le> 1"
  using featureOpacity_range [of 10800000 0]
  by (simp add: featureOpacity_def)

text \<open>
  C9. For a batch of exactly one event the span is 0 and the render time is the time of
  that event, whatever the play state; the divisor is \<open>playTime\<close>, which is not zero,
  so the division is defined.
\<close>

theorem renderTime_single_event:
  "renderTime [f] state = Inr (time f) \<and> total_time [f] = 0 \<and>
   first_time [f] = time f \<and> playTime \<noteq> 0 \<and>
   js_div (currentTime state * total_time [f]) playTime = Some 0"
  by (simp add: renderTime_def total_time_def first_time_def js_div_def playTime_def)

theorem renderTime_single_event_witness:
  "renderTime [\<lparr>time = 1456000000000, mag = 5, coordinates = []\<rparr>]
     \<lparr>playing = True, currentTime = 2500, totalTime = 10000\<rparr> = Inr 1456000000000"
  using renderTime_single_event [of "\<lparr>time = 1456000000000, mag = 5, coordinates = []\<rparr>"
      "\<lparr>playing = True, currentTime = 2500, totalTime = 10000\<rparr>"]
  by simp

subsection \<open>The clock between handlers\<close>

lemmas clock_defs = updatePlayState_def subscriber_def cancel_previous_def request_next_def
  requestAnimationFrame_def cancelAnimationFrame_def truthy_def assign_def

lemma clock_inv_initial: "clock_inv (initial_clock now)"
  by (simp add: initial_clock_def clock_defs clock_inv_def startState_def playTime_def)

lemma clock_inv_play: "clock_inv c \<Longrightarrow> clock_inv (play now c)"
  by (auto simp: play_def clock_defs clock_inv_def playTime_def Let_def split: option.splits)

lemma clock_inv_pause: "clock_inv c \<Longrightarrow> clock_inv (pause now c)"
  by (auto simp: pause_def clock_defs clock_inv_def Let_def split: option.splits)

lemma clock_inv_slider_input: "clock_inv c \<Longrightarrow> clock_inv (slider_input v now c)"
  by (auto simp: slider_input_def clock_defs clock_inv_def Let_def split: option.splits)

lemma animation_frame_paused: "clock_inv c \<Longrightarrow> \<not> playing (playState c) \<Longrightarrow> animation_frame now now' c = c"
  by (simp add: animation_frame_def clock_inv_def)

lemma animation_frame_playing:
  "clock_inv c \<Longrightarrow> playing (playState c) \<Longrightarrow>
   animation_frame now now' c = tick now now' (c\<lparr>frameCallbacks := []\<rparr>)"
  by (auto simp: animation_frame_def clock_inv_def fire_def)

lemma clock_inv_tick:
  "clock_inv c \<Longrightarrow> playing (playState c) \<Longrightarrow> clock_inv (tick now now' (c\<lparr>frameCallbacks := []\<rparr>))"
  by (auto simp: tick_def clock_defs clock_inv_def Let_def split: option.splits)

lemma clock_inv_handle: "clock_inv c \<Longrightarrow> clock_inv (handle e c)"
  by (cases e; cases "playing (playState c)")
    (simp_all add: clock_inv_play clock_inv_pause clock_inv_slider_input button_click_def
      animation_frame_paused animation_frame_playing clock_inv_tick)

lemma reachable_clock_inv: "reachable c \<Longrightarrow> clock_inv c"
  by (induction rule: reachable.induct) (simp_all add: clock_inv_initial clock_inv_handle)











subsection \<open>The states a handler passes through\<close>

lemmas trace_defs = subscriber_trace_def updatePlayState_trace_def tick_trace_def
  play_trace_def pause_trace_def

lemma updatePlayState_trace_eq:
  "updatePlayState_trace n now c =
     [c\<lparr>playState := assign (playState c) n\<rparr>,
      cancel_previous (c\<lparr>playState := assign (playState c) n\<rparr>),
      updatePlayState n now c]"
  by (simp add: updatePlayState_trace_def updatePlayState_def subscriber_trace_def
      subscriber_def Let_def)

lemma last_tick_trace:
  "tick_trace now now' c \<noteq> [] \<and> last (tick_trace now now' c) = tick now now' c"
  by (simp add: tick_trace_def tick_def Let_def updatePlayState_trace_eq)

lemma last_handle_trace:
  assumes "clock_inv c"
  shows "last (c # handle_trace e c) = handle e c"
proof (cases e)
  case (AnimationFrame now now')
  show ?thesis
  proof (cases "requestID c")
    case None
    then show ?thesis
      using assms by (simp add: AnimationFrame clock_inv_def animation_frame_def)
  next
    case (Some h)
    then have fc: "frameCallbacks c = [h]"
      using assms by (simp add: clock_inv_def)
    show ?thesis
      using last_tick_trace [of now now' "c\<lparr>frameCallbacks := []\<rparr>"]
      by (simp add: AnimationFrame animation_frame_def fire_def fc Let_def)
  qed
qed (simp_all add: play_trace_def pause_trace_def play_def pause_def slider_input_def
      button_click_def updatePlayState_trace_eq Let_def)

lemma updatePlayState_trace_ok:
  assumes "frameCallbacks c = (if truthy (requestID c) then [the (requestID c)] else [])"
  shows "trace_ok c (updatePlayState_trace n now c)"
  using assms
  by (simp add: trace_ok_def trace_defs clock_defs schedules_on_empty_def Let_def)

lemma handle_trace_ok:
  assumes "clock_inv c"
  shows "trace_ok c (handle_trace e c)"
proof -
  have pre: "frameCallbacks c = (if truthy (requestID c) then [the (requestID c)] else [])"
    using assms by (auto simp: clock_inv_def truthy_def split: option.splits)
  note upd = updatePlayState_trace_ok [OF pre]
  show ?thesis
  proof (cases e)
    case (AnimationFrame now now')
    show ?thesis
    proof (cases "requestID c")
      case None
      then show ?thesis
        using assms by (simp add: AnimationFrame clock_inv_def trace_ok_def)
    next
      case (Some h)
      then have fc: "frameCallbacks c = [h]"
        using assms by (simp add: clock_inv_def)
      let ?c1 = "c\<lparr>frameCallbacks := [], requestID := None\<rparr>"
      have "frameCallbacks ?c1 = (if truthy (requestID ?c1) then [the (requestID ?c1)] else [])"
        by (simp add: truthy_def)
      from updatePlayState_trace_ok [OF this]
      show ?thesis
        by (simp add: AnimationFrame fc tick_trace_def Let_def schedules_on_empty_def
            trace_ok_def)
    qed
  next
    case (Play now)
    then show ?thesis by (simp add: play_trace_def Let_def upd)
  next
    case (Pause now)
    then show ?thesis by (simp add: pause_trace_def upd)
  next
    case (ButtonClick now)
    then show ?thesis by (simp add: play_trace_def pause_trace_def Let_def upd)
  next
    case (SliderMouseDown now)
    then show ?thesis by (simp add: pause_trace_def upd)
  next
    case (SliderInput v now)
    then show ?thesis by (simp add: upd)
  qed
qed


text \<open>
  C2. In every reachable state of the clock, and in every state a handler (play, pause,
  the slider, an animation frame with its tick) passes through from there, the window
  holds at most one pending frame callback; a callback is only ever added when none is
  pending, the subscriber having cancelled the previous one first; and a clock that is
  not playing has no pending callback, so no exit from playing leaves one behind.
\<close>

theorem one_pending_callback:
  assumes "reachable c"
  shows "length (frameCallbacks c) \<le> 1 \<and>
         (\<forall>s\<in>set (handle_trace e c). length (frameCallbacks s) \<le> 1) \<and>
         successively schedules_on_empty (c # handle_trace e c) \<and>
         last (c # handle_trace e c) = handle e c \<and>
         (\<not> playing (playState c) \<longrightarrow> frameCallbacks c = []) \<and>
         (playing (playState c) \<longrightarrow> frameCallbacks c = [the (requestID c)])"
proof -
  have inv: "clock_inv c"
    using assms by (rule reachable_clock_inv)
  have "trace_ok c (handle_trace e c)"
    using inv by (rule handle_trace_ok)
  moreover have "last (c # handle_trace e c) = handle e c"
    using inv by (rule last_handle_trace)
  moreover have "length (frameCallbacks c) \<le> 1"
    using inv by (simp add: clock_inv_def split: option.splits)
  moreover have "\<not> playing (playState c) \<longrightarrow> frameCallbacks c = []"
    using inv by (simp add: clock_inv_def)
  moreover have "playing (playState c) \<longrightarrow> frameCallbacks c = [the (requestID c)]"
    using inv by (auto simp: clock_inv_def)
  ultimately show ?thesis
    unfolding trace_ok_def by blast
qed

lemmas eval_defs = initial_clock_def play_def pause_def slider_input_def button_click_def
  tick_def animation_frame_def fire_def startState_def playTime_def to_number_def

theorem one_pending_callback_witness:
  "reachable (handle (Play 0) (initial_clock 0)) \<and>
   map frameCallbacks
     (handle (Play 0) (initial_clock 0) #
      handle_trace (Play 7) (handle (Play 0) (initial_clock 0))) = [[1], [1], [], [2]] \<and>
   map frameCallbacks
     (handle_trace (AnimationFrame 20000 20000) (handle (Play 0) (initial_clock 0))) = [[], [], [], [], []] \<and>
   frameCallbacks (handle (Play 7) (handle (Play 0) (initial_clock 0))) = [2] \<and>
   playing (playState (handle (Play 0) (initial_clock 0)))"
proof -
  have r: "reachable (handle (Play 0) (initial_clock 0))"
    by (intro reachable.intros)
  show ?thesis
    using r one_pending_callback [OF r, of "Play 7"]
    by (simp add: eval_defs clock_defs trace_defs Let_def)
qed

subsection \<open>Ticking, playing, pausing and seeking\<close>




text \<open>
  C5. \<open>play\<close> sets \<open>playing\<close> and rewinds the current time to 0 exactly when it
  equals the total time, leaving it as it is otherwise; \<open>pause\<close> only clears
  \<open>playing\<close>. So \<open>pause\<close> followed by \<open>play\<close> resumes from the same current
  time, except at the end, where it starts again from 0.
\<close>

theorem play_after_pause:
  "playState (play now c) =
     (playState c)
       \<lparr>playing := True,
        currentTime := (if currentTime (playState c) = totalTime (playState c) then 0
                        else currentTime (playState c))\<rparr> \<and>
   playState (pause now0 c) = (playState c)\<lparr>playing := False\<rparr> \<and>
   playState (play now (pause now0 c)) = playState (play now c) \<and>
   (currentTime (playState c) \<noteq> totalTime (playState c) \<longrightarrow>
      currentTime (playState (play now (pause now0 c))) = currentTime (playState c)) \<and>
   (currentTime (playState c) = totalTime (playState c) \<longrightarrow>
      currentTime (playState (play now (pause now0 c))) = 0)"
  by (simp add: play_def pause_def clock_defs Let_def)

theorem play_after_pause_witness:
  "playState (play 9 (pause 8 (handle (AnimationFrame 4000 4000) (handle (Play 0) (initial_clock 0))))) =
     \<lparr>playing = True, currentTime = 4000, totalTime = 10000\<rparr> \<and>
   playState (play 9 (pause 8 (initial_clock 0))) =
     \<lparr>playing = True, currentTime = 0, totalTime = 10000\<rparr>"
  using play_after_pause [of 9 "handle (AnimationFrame 4000 4000) (handle (Play 0) (initial_clock 0))" 8]
    play_after_pause [of 9 "initial_clock 0" 8]
  by (simp add: eval_defs clock_defs Let_def)

text \<open>
  C4, as stated, fails: the input listener of the slider does not clamp. With the value
  2 on the initial clock the current time becomes 20000, not
  \<open>clamp 2 0 1 * totalTime = 10000\<close>, and exceeds the total time.
\<close>

theorem slider_input_counterexample:
  "currentTime (playState (slider_input 2 0 (initial_clock 0))) = 20000 \<and>
   totalTime (playState (slider_input 2 0 (initial_clock 0))) = 10000 \<and>
   max 0 (min 1 2) * totalTime (playState (initial_clock 0)) = 10000 \<and>
   currentTime (playState (slider_input 2 0 (initial_clock 0))) \<noteq>
     max 0 (min 1 2) * totalTime (playState (initial_clock 0)) \<and>
   \<not> currentTime (playState (slider_input 2 0 (initial_clock 0)))
       \<le> totalTime (playState (slider_input 2 0 (initial_clock 0)))"
  by (simp add: eval_defs clock_defs Let_def)

text \<open>
  C4, amended. For every value \<open>v\<close> of the slider the listener is never rejected: it
  sets \<open>playing\<close> to false and the current time to \<open>v * totalTime\<close>, and leaves no
  callback pending; for \<open>v\<close> in \<open>[0, 1]\<close> this is \<open>clamp v 0 1 * totalTime\<close>
  and the current time lands in \<open>[0, totalTime]\<close>.
\<close>

theorem slider_input_seeks:
  assumes "reachable c"
  shows "playState (slider_input v now c) =
           (playState c)\<lparr>playing := False, currentTime := v * totalTime (playState c)\<rparr> \<and>
         frameCallbacks (slider_input v now c) = [] \<and>
         (0 \<le> v \<and> v \<le> 1 \<longrightarrow>
            currentTime (playState (slider_input v now c)) =
              max 0 (min 1 v) * totalTime (playState c) \<and>
            0 \<le> currentTime (playState (slider_input v now c)) \<and>
            currentTime (playState (slider_input v now c))
              \<le> totalTime (playState (slider_input v now c)))"
proof -
  have inv: "clock_inv c"
    using assms by (rule reachable_clock_inv)
  then have tt: "totalTime (playState c) = playTime"
    by (simp add: clock_inv_def)
  have ps: "playState (slider_input v now c) =
           (playState c)\<lparr>playing := False, currentTime := v * totalTime (playState c)\<rparr>"
    by (simp add: slider_input_def clock_defs tt)
  have fc: "frameCallbacks (slider_input v now c) = []"
    using inv by (auto simp: slider_input_def clock_defs clock_inv_def split: option.splits)
  have "0 \<le> v * playTime \<and> v * playTime \<le> playTime" if "0 \<le> v \<and> v \<le> 1"
    using that by (simp add: playTime_def)
  moreover have "max 0 (min 1 v) = v" if "0 \<le> v \<and> v \<le> 1"
    using that by simp
  ultimately show ?thesis
    using ps fc by (simp add: tt)
qed

theorem slider_input_seeks_witness:
  "reachable (handle (Play 0) (initial_clock 0)) \<and>
   playState (slider_input 0.25 3 (handle (Play 0) (initial_clock 0))) =
     \<lparr>playing = False, currentTime = 2500, totalTime = 10000\<rparr> \<and>
   frameCallbacks (slider_input 0.25 3 (handle (Play 0) (initial_clock 0))) = []"
proof -
  have r: "reachable (handle (Play 0) (initial_clock 0))"
    by (intro reachable.intros)
  show ?thesis
    using r slider_input_seeks [OF r, of "1/4" 3]
    by (simp add: eval_defs clock_defs Let_def)
qed

text \<open>
  C6. For every non-empty batch and every play state the clock can reach, the render
  time is \<open>oldest + currentTime * span / totalTime\<close>, where \<open>oldest\<close> is the time of
  the last element, \<open>newest\<close> that of element 0 and \<open>span\<close> their difference; it is
  \<open>oldest\<close> at current time 0 and \<open>newest\<close> at the total time. For a newest-first
  batch these are the least and the greatest time of the batch.
\<close>

theorem renderTime_extent:
  assumes "reachable c" and "features \<noteq> []"
  shows "renderTime features (playState c) =
           Inr (first_time features +
                currentTime (playState c) * total_time features / totalTime (playState c)) \<and>
         total_time features = last_time features - first_time features \<and>
         (currentTime (playState c) = 0 \<longrightarrow>
            renderTime features (playState c) = Inr (first_time features)) \<and>
         (currentTime (playState c) = totalTime (playState c) \<longrightarrow>
            renderTime features (playState c) = Inr (last_time features)) \<and>
         (newest_first features \<longrightarrow>
            first_time features = Min (time ` set features) \<and>
            last_time features = Max (time ` set features))"
proof -
  have tt: "totalTime (playState c) = playTime"
    using assms(1) reachable_clock_inv by (simp add: clock_inv_def)
  have rt: "renderTime features (playState c) =
           Inr (first_time features +
                currentTime (playState c) * total_time features / totalTime (playState c))"
    using assms(2) by (simp add: renderTime_def js_div_def tt playTime_def)
  have tot: "total_time features = last_time features - first_time features"
    by (simp add: total_time_def last_time_def first_time_def)
  have "first_time features + playTime * total_time features / playTime = last_time features"
    by (simp add: tot playTime_def diff_divide_distrib)
  then have "currentTime (playState c) = totalTime (playState c) \<longrightarrow>
            renderTime features (playState c) = Inr (last_time features)"
    using rt by (simp add: tt)
  moreover have "currentTime (playState c) = 0 \<longrightarrow>
            renderTime features (playState c) = Inr (first_time features)"
    using rt by simp
  ultimately show ?thesis
    using rt tot newest_first_first_time [OF assms(2)] newest_first_last_time [OF assms(2)]
    by blast
qed

theorem renderTime_extent_witness:
  "reachable (handle (SliderInput 0.5 3) (initial_clock 0)) \<and>
   renderTime [\<lparr>time = 1000, mag = 5, coordinates = []\<rparr>, \<lparr>time = 0, mag = 4, coordinates = []\<rparr>]
     (playState (handle (SliderInput 0.5 3) (initial_clock 0))) = Inr 500 \<and>
   newest_first [\<lparr>time = 1000, mag = 5, coordinates = []\<rparr>,
                 \<lparr>time = 0, mag = 4, coordinates = []\<rparr>] \<and>
   first_time [\<lparr>time = 1000, mag = 5, coordinates = []\<rparr>,
               \<lparr>time = 0, mag = 4, coordinates = []\<rparr>] = 0 \<and>
   last_time [\<lparr>time = 1000, mag = 5, coordinates = []\<rparr>,
              \<lparr>time = 0, mag = 4, coordinates = []\<rparr>] = 1000"
proof -
  have r: "reachable (handle (SliderInput 0.5 3) (initial_clock 0))"
    by (intro reachable.intros)
  show ?thesis
    using r renderTime_extent [OF r, of "[\<lparr>time = 1000, mag = 5, coordinates = []\<rparr>,
        \<lparr>time = 0, mag = 4, coordinates = []\<rparr>]"]
    by (simp add: eval_defs clock_defs Let_def newest_first_def first_time_def last_time_def
        total_time_def)
qed

subsection \<open>The container\<close>












subsection \<open>The scan\<close>



subsection \<open>The latest values\<close>














subsection \<open>Sequences that obey the sources\<close>
























end
